theory Spec2Isabelle
  imports Complex_Main "HOL-Library.Sublist" "HOL-Library.Char_ord" "HOL-Library.List_Lexorder"
    "HOL-Library.Multiset"
begin

section \<open>Python strings\<close>

text \<open>
  Python \<open>str\<close> values are modelled as \<open>string\<close>: a character is a code point below
  256 (Latin-1), so \<open>len\<close> is \<open>length\<close> and slices count characters.  \<open>str.lower()\<close>
  maps \<open>A\<close>-\<open>Z\<close> and the Latin-1 capitals (\<open>U+00C0\<close>-\<open>U+00D6\<close>, \<open>U+00D8\<close>-\<open>U+00DE\<close>)
  to the letter 32 code points above and leaves every other character alone.  SQLite's
  \<open>LIKE\<close> folds the case of ASCII letters only.  \<open>sub in s\<close> is the contiguous-substring
  test; \<open>str.strip()\<close> removes the characters for which \<open>str.isspace\<close> holds, at both
  ends.
\<close>

definition ascii_lower_char :: "char \<Rightarrow> char" where
  "ascii_lower_char c =
     (case map_of (zip ''ABCDEFGHIJKLMNOPQRSTUVWXYZ'' ''abcdefghijklmnopqrstuvwxyz'') c of
        None \<Rightarrow> c
      | Some d \<Rightarrow> d)"


definition lower_char :: "char \<Rightarrow> char" where
  "lower_char c =
     (let n = of_char c :: nat in
      if (0xC0 \<le> n \<and> n \<le> 0xD6) \<or> (0xD8 \<le> n \<and> n \<le> 0xDE) then char_of (n + 0x20)
      else ascii_lower_char c)"

definition lower :: "string \<Rightarrow> string" where
  "lower s = map lower_char s"

text \<open>\<open>str_in sub s\<close> is Python's \<open>sub in s\<close>: scan \<open>s\<close> for a position where \<open>sub\<close> starts.\<close>

fun str_in :: "string \<Rightarrow> string \<Rightarrow> bool" where
  "str_in sub [] = (sub = [])"
| "str_in sub (c # cs) = (prefix sub (c # cs) \<or> str_in sub cs)"





section \<open>Code reviewer agent (\<open>agents/reviewer_agent.py\<close>)\<close>

text \<open>
  The four findings of \<open>CodeReviewerAgent._review_code\<close>.  The source appends French
  messages to \<open>issues\<close>: "Code trop court", "Pas de fonction/classe detectee",
  "Pas de commentaires/docstrings", "Pas d'imports detectes".
\<close>

datatype issue = CodeTropCourt | PasDeFonction | PasDeCommentaires | PasDImports

record review =
  success :: bool
  score :: int
  issues :: "issue list"
  suggestions :: "string list"
  approved :: bool

text \<open>The four checks, each threading the pair \<open>(issues, score)\<close> as the source mutates it.\<close>

definition check_length :: "string \<Rightarrow> issue list \<times> int \<Rightarrow> issue list \<times> int" where
  "check_length code st =
     (if length code < 10 then (fst st @ [CodeTropCourt], snd st - 10) else st)"

definition check_function :: "string \<Rightarrow> issue list \<times> int \<Rightarrow> issue list \<times> int" where
  "check_function code st =
     (if \<not> str_in ''def'' code \<and> \<not> str_in ''function'' code \<and> \<not> str_in ''class'' code
      then (fst st @ [PasDeFonction], snd st - 10) else st)"

definition check_comments :: "string \<Rightarrow> issue list \<times> int \<Rightarrow> issue list \<times> int" where
  "check_comments code st =
     (if \<not> str_in ''# '' code \<and> \<not> str_in [CHR 0x22, CHR 0x22, CHR 0x22] code
      then (fst st @ [PasDeCommentaires], snd st - 5) else st)"

definition check_imports :: "string \<Rightarrow> issue list \<times> int \<Rightarrow> issue list \<times> int" where
  "check_imports code st =
     (if \<not> str_in ''import'' code then (fst st @ [PasDImports], snd st - 5) else st)"

text \<open>The state after the four checks: \<open>issues = []\<close>, \<open>score = 70\<close> at the start.\<close>

definition review_checks :: "string \<Rightarrow> issue list \<times> int" where
  "review_checks code =
     check_imports code (check_comments code (check_function code (check_length code ([], 70))))"

definition review_code :: "string \<Rightarrow> review" where
  "review_code code =
     (let st = review_checks code in
      \<lparr> success = True,
        score = max 0 (snd st),
        issues = fst st,
        suggestions = [''Ajouter des docstrings'', ''Ajouter des tests''],
        approved = (snd st \<ge> 60) \<rparr>)"


section \<open>Battery manager (\<open>core/battery_manager.py\<close>)\<close>

datatype profile = PERFORMANCE | BALANCED | ECO | CRITICAL

text \<open>
  What \<open>psutil.sensors_battery()\<close> returns: \<open>None\<close> without a battery, else a reading
  with \<open>percent\<close>, \<open>secsleft\<close> and \<open>power_plugged\<close>.
\<close>

record sbattery =
  sb_percent :: real
  sb_secsleft :: int
  sb_power_plugged :: bool

definition POWER_TIME_UNLIMITED :: int where
  "POWER_TIME_UNLIMITED = - 2"

record battery_status =
  present :: bool
  percent :: real
  plugged :: bool
  time_left :: "int option"

definition get_battery_status :: "sbattery option \<Rightarrow> battery_status" where
  "get_battery_status battery =
     (case battery of
        None \<Rightarrow> \<lparr> present = False, percent = 100, plugged = True, time_left = None \<rparr>
      | Some b \<Rightarrow>
          \<lparr> present = True, percent = sb_percent b, plugged = sb_power_plugged b,
            time_left = (if sb_secsleft b \<noteq> POWER_TIME_UNLIMITED then Some (sb_secsleft b)
                         else None) \<rparr>)"

text \<open>The decision of \<open>get_performance_profile\<close> on the status dictionary it has read.\<close>

definition profile_of_status :: "battery_status \<Rightarrow> profile" where
  "profile_of_status status =
     (if plugged status then PERFORMANCE
      else if \<not> present status then PERFORMANCE
      else let level = percent status in
        if level > 80 then PERFORMANCE
        else if level > 40 then BALANCED
        else if level > 20 then ECO
        else CRITICAL)"

definition get_performance_profile :: "sbattery option \<Rightarrow> profile" where
  "get_performance_profile battery = profile_of_status (get_battery_status battery)"


text \<open>
  \<open>datetime\<close> values are counted in microseconds (the resolution of \<open>datetime\<close>);
  \<open>timedelta.total_seconds()\<close> of a difference is that count divided by \<open>10^6\<close>.
\<close>

definition total_seconds :: "int \<Rightarrow> real" where
  "total_seconds d = real_of_int d / 1000000"

record history_entry =
  he_timestamp :: int
  he_level :: real
  he_profile :: profile
  he_plugged :: bool

record battery_manager =
  current_profile :: profile
  last_check :: int
  check_interval :: int
  battery_history :: "history_entry list"

text \<open>\<open>BatteryManager.__init__\<close>, run at time \<open>now\<close>.\<close>

definition init_battery_manager :: "int \<Rightarrow> battery_manager" where
  "init_battery_manager now =
     \<lparr> current_profile = PERFORMANCE, last_check = now, check_interval = 60,
       battery_history = [] \<rparr>"

text \<open>Python's \<open>xs[n:]\<close> for an integer \<open>n\<close>.\<close>

definition py_slice_from :: "int \<Rightarrow> 'a list \<Rightarrow> 'a list" where
  "py_slice_from n xs = (if n < 0 then drop (length xs - nat (- n)) xs else drop (nat n) xs)"

text \<open>
  \<open>check_and_adapt\<close>, called at time \<open>now\<close>.  The sensor is read once by
  \<open>get_performance_profile\<close> (reading \<open>r1\<close>) and once more for the status that goes
  into the history (reading \<open>r2\<close>); a third read, in \<open>estimate_runtime\<close>, only feeds
  a printed line.  The result is the returned flag and the manager afterwards.
\<close>

definition check_and_adapt ::
  "battery_manager \<Rightarrow> int \<Rightarrow> sbattery option \<Rightarrow> sbattery option \<Rightarrow> bool \<times> battery_manager" where
  "check_and_adapt bm now r1 r2 =
     (if total_seconds (now - last_check bm) < real_of_int (check_interval bm) then (False, bm)
      else
        let bm1 = bm \<lparr> last_check := now \<rparr>;
            new_profile = get_performance_profile r1
        in if new_profile \<noteq> current_profile bm1 then
             let bm2 = bm1 \<lparr> current_profile := new_profile \<rparr>;
                 status = get_battery_status r2;
                 hist = battery_history bm2 @
                   [\<lparr> he_timestamp = now, he_level = percent status,
                      he_profile = new_profile, he_plugged = plugged status \<rparr>];
                 hist' = (if length hist > 100 then py_slice_from (- 100) hist else hist)
             in (True, bm2 \<lparr> battery_history := hist' \<rparr>)
           else (False, bm1))"

text \<open>A sequence of calls, each with its time and its two sensor readings.\<close>

fun run_checks :: "battery_manager \<Rightarrow> (int \<times> sbattery option \<times> sbattery option) list \<Rightarrow> battery_manager" where
  "run_checks bm [] = bm"
| "run_checks bm ((now, r1, r2) # calls) = run_checks (snd (check_and_adapt bm now r1 r2)) calls"


section \<open>Reasoning core: complexity score (\<open>core/brain.py\<close>)\<close>

definition complex_kw :: "string list" where
  "complex_kw = [''pourquoi'', ''why'', ''comment'', ''how'', ''analyse'', ''architecture'',
                 ''implement'', ''explain'']"

definition simple_kw :: "string list" where
  "simple_kw = [''bonjour'', ''hello'', ''what is'', ''qui est'']"

text \<open>\<open>_evaluate_complexity\<close>: the score is rebound step by step, as in the source.\<close>

definition evaluate_complexity :: "string \<Rightarrow> int" where
  "evaluate_complexity prompt =
     (let score0 = 5;
          prompt_lower = lower prompt;
          score1 = (if length prompt > 200 then score0 + 1 else score0);
          score2 = (if length prompt > 500 then score1 + 1 else score1);
          score3 = score2 + min (sum_list (map (\<lambda>kw. 1)
                                   (filter (\<lambda>kw. str_in kw prompt_lower) complex_kw))) 3;
          score4 = (if list_ex (\<lambda>kw. str_in kw prompt_lower) simple_kw
                    then score3 - 2 else score3)
      in max 0 (min 10 score4))"

text \<open>
  The score as the specification words it, with its keyword set
  \<open>{why, how, analyze, architecture, implement, explain, pourquoi, comment}\<close>.
\<close>

definition spec_complexity :: "string \<Rightarrow> int" where
  "spec_complexity prompt =
     max 0 (min 10
       (5 + (if length prompt > 200 then 1 else 0) + (if length prompt > 500 then 1 else 0)
          + min 3 (int (length (filter (\<lambda>kw. str_in kw (lower prompt))
               [''why'', ''how'', ''analyze'', ''architecture'', ''implement'', ''explain'',
                ''pourquoi'', ''comment''])))
          - (if list_ex (\<lambda>kw. str_in kw (lower prompt))
                 [''hello'', ''bonjour'', ''what is'', ''qui est''] then 2 else 0)))"


section \<open>Python and SQLite helpers\<close>

text \<open>Exceptions that the modelled functions let escape.\<close>

datatype py_error = ValueError string | KeyError string | RuntimeError string | JSONDecodeError

text \<open>JSON values, as \<open>json.dumps\<close> takes them and \<open>json.loads\<close> returns them.\<close>

datatype json = JNull | JBool bool | JNum int | JStr string | JList "json list"
  | JDict "(string \<times> json) list"

text \<open>
  \<open>metadata or {}\<close> for an optional dictionary argument: \<open>None\<close> and the empty
  dictionary are both falsy and give \<open>{}\<close>.
\<close>

definition or_empty :: "(string \<times> json) list option \<Rightarrow> json" where
  "or_empty metadata =
     (case metadata of None \<Rightarrow> JDict [] | Some d \<Rightarrow> if d = [] then JDict [] else JDict d)"

text \<open>Truth value of an optional string argument (\<open>if agent_name:\<close>).\<close>

definition truthy :: "string option \<Rightarrow> bool" where
  "truthy a = (case a of None \<Rightarrow> False | Some s \<Rightarrow> s \<noteq> [])"

text \<open>
  A stable sort, descending by key: elements with equal keys keep their order.  It is
  Python's \<open>list.sort(key=..., reverse=True)\<close>, and it stands for SQL's
  \<open>ORDER BY timestamp DESC\<close>, with rows of equal timestamp in insertion order.
  Timestamps are ISO strings compared as text.
\<close>

fun insert_desc :: "('a \<Rightarrow> string) \<Rightarrow> 'a \<Rightarrow> 'a list \<Rightarrow> 'a list" where
  "insert_desc k x [] = [x]"
| "insert_desc k x (y # ys) = (if k y \<le> k x then x # y # ys else y # insert_desc k x ys)"

definition sort_desc :: "('a \<Rightarrow> string) \<Rightarrow> 'a list \<Rightarrow> 'a list" where
  "sort_desc k xs = foldr (insert_desc k) xs []"

text \<open>SQL \<open>LIMIT n\<close>: a negative \<open>n\<close> means no limit in SQLite.\<close>

definition sql_limit :: "int \<Rightarrow> 'a list \<Rightarrow> 'a list" where
  "sql_limit n xs = (if n < 0 then xs else take (nat n) xs)"




section \<open>Persistent store (\<open>core/persistent_memory.py\<close>)\<close>

text \<open>
  The two tables, rows in insertion order.  The column \<open>created_at\<close>, which no query
  reads, is left out.  \<open>seq_*\<close> are the \<open>AUTOINCREMENT\<close> counters.
\<close>

record consultation_row =
  c_id :: int
  c_agent_name :: string
  c_query :: string
  c_response :: string
  c_importance :: string
  c_metadata :: "string option"
  c_timestamp :: string

record task_row =
  t_id :: int
  t_agent_name :: string
  t_task_type :: string
  t_description :: string
  t_result :: "string option"
  t_status :: string
  t_metadata :: "string option"
  t_timestamp :: string

record store =
  consultations :: "consultation_row list"
  tasks :: "task_row list"
  seq_consultations :: int
  seq_tasks :: int

definition empty_store :: store where
  "empty_store = \<lparr> consultations = [], tasks = [], seq_consultations = 0, seq_tasks = 0 \<rparr>"

text \<open>
  \<open>remember_consultation\<close>.  \<open>dumps\<close> is \<open>json.dumps\<close>; \<open>now_iso\<close> is the value of
  \<open>datetime.now().isoformat()\<close> at the call.  Returns \<open>lastrowid\<close> and the store.
\<close>

definition remember_consultation ::
  "(json \<Rightarrow> string) \<Rightarrow> store \<Rightarrow> string \<Rightarrow> string \<Rightarrow> string \<Rightarrow> string \<Rightarrow>
   (string \<times> json) list option \<Rightarrow> string \<Rightarrow> int \<times> store" where
  "remember_consultation dumps db agent_name query response importance metadata now_iso =
     (let rid = seq_consultations db + 1;
          row = \<lparr> c_id = rid, c_agent_name = agent_name, c_query = query,
                  c_response = response, c_importance = importance,
                  c_metadata = Some (dumps (or_empty metadata)), c_timestamp = now_iso \<rparr>
      in (rid, db \<lparr> consultations := consultations db @ [row], seq_consultations := rid \<rparr>))"

definition remember_task ::
  "(json \<Rightarrow> string) \<Rightarrow> store \<Rightarrow> string \<Rightarrow> string \<Rightarrow> string \<Rightarrow> string option \<Rightarrow> string \<Rightarrow>
   (string \<times> json) list option \<Rightarrow> string \<Rightarrow> int \<times> store" where
  "remember_task dumps db agent_name task_type description result status metadata now_iso =
     (let rid = seq_tasks db + 1;
          row = \<lparr> t_id = rid, t_agent_name = agent_name, t_task_type = task_type,
                  t_description = description, t_result = result, t_status = status,
                  t_metadata = Some (dumps (or_empty metadata)), t_timestamp = now_iso \<rparr>
      in (rid, db \<lparr> tasks := tasks db @ [row], seq_tasks := rid \<rparr>))"

text \<open>
  \<open>json.loads(row["metadata"]) if row["metadata"] else {}\<close>; \<open>loads\<close> is \<open>json.loads\<close>,
  \<open>None\<close> where it raises.
\<close>

definition decode_metadata :: "(string \<Rightarrow> json option) \<Rightarrow> string option \<Rightarrow> py_error + json" where
  "decode_metadata loads m =
     (case m of
        None \<Rightarrow> Inr (JDict [])
      | Some s \<Rightarrow>
          if s = [] then Inr (JDict [])
          else (case loads s of None \<Rightarrow> Inl JSONDecodeError | Some j \<Rightarrow> Inr j))"

text \<open>Building a result list row by row; the first exception ends the loop.\<close>

fun collect :: "('r \<Rightarrow> py_error + 'd) \<Rightarrow> 'r list \<Rightarrow> py_error + 'd list" where
  "collect f [] = Inr []"
| "collect f (r # rs) =
     (case f r of
        Inl e \<Rightarrow> Inl e
      | Inr d \<Rightarrow> (case collect f rs of Inl e \<Rightarrow> Inl e | Inr ds \<Rightarrow> Inr (d # ds)))"

record consultation_dict =
  cd_id :: int
  cd_agent :: string
  cd_query :: string
  cd_response :: string
  cd_importance :: string
  cd_metadata :: json
  cd_timestamp :: string

record task_dict =
  td_id :: int
  td_agent :: string
  td_task_type :: string
  td_description :: string
  td_result :: "string option"
  td_status :: string
  td_metadata :: json
  td_timestamp :: string

definition consultation_of_row ::
  "(string \<Rightarrow> json option) \<Rightarrow> consultation_row \<Rightarrow> py_error + consultation_dict" where
  "consultation_of_row loads row =
     (case decode_metadata loads (c_metadata row) of
        Inl e \<Rightarrow> Inl e
      | Inr m \<Rightarrow> Inr \<lparr> cd_id = c_id row, cd_agent = c_agent_name row, cd_query = c_query row,
                       cd_response = c_response row, cd_importance = c_importance row,
                       cd_metadata = m, cd_timestamp = c_timestamp row \<rparr>)"

definition task_of_row :: "(string \<Rightarrow> json option) \<Rightarrow> task_row \<Rightarrow> py_error + task_dict" where
  "task_of_row loads row =
     (case decode_metadata loads (t_metadata row) of
        Inl e \<Rightarrow> Inl e
      | Inr m \<Rightarrow> Inr \<lparr> td_id = t_id row, td_agent = t_agent_name row,
                       td_task_type = t_task_type row, td_description = t_description row,
                       td_result = t_result row, td_status = t_status row,
                       td_metadata = m, td_timestamp = t_timestamp row \<rparr>)"

text \<open>
  \<open>recall_consultations(agent_name, limit, days)\<close>.  The argument \<open>cutoff\<close> is \<open>None\<close>
  when \<open>days\<close> is \<open>None\<close>, and otherwise the string
  \<open>(datetime.now() - timedelta(days=days)).isoformat()\<close>.  The \<open>WHERE\<close> clause is built
  as the source builds it: one condition per argument that is given.
\<close>

definition recall_consultations ::
  "(string \<Rightarrow> json option) \<Rightarrow> store \<Rightarrow> string option \<Rightarrow> int \<Rightarrow> string option \<Rightarrow>
   py_error + consultation_dict list" where
  "recall_consultations loads db agent_name limit cutoff =
     (let rows0 = consultations db;
          rows1 = (if truthy agent_name
                   then filter (\<lambda>r. Some (c_agent_name r) = agent_name) rows0 else rows0);
          rows2 = (case cutoff of None \<Rightarrow> rows1
                   | Some c \<Rightarrow> filter (\<lambda>r. c_timestamp r > c) rows1);
          rows3 = sql_limit limit (sort_desc c_timestamp rows2)
      in collect (consultation_of_row loads) rows3)"

definition recall_tasks ::
  "(string \<Rightarrow> json option) \<Rightarrow> store \<Rightarrow> string option \<Rightarrow> string option \<Rightarrow> int \<Rightarrow> string option \<Rightarrow>
   py_error + task_dict list" where
  "recall_tasks loads db agent_name task_type limit cutoff =
     (let rows0 = tasks db;
          rows1 = (if truthy agent_name
                   then filter (\<lambda>r. Some (t_agent_name r) = agent_name) rows0 else rows0);
          rows2 = (if truthy task_type
                   then filter (\<lambda>r. Some (t_task_type r) = task_type) rows1 else rows1);
          rows3 = (case cutoff of None \<Rightarrow> rows2
                   | Some c \<Rightarrow> filter (\<lambda>r. t_timestamp r > c) rows2);
          rows4 = sql_limit limit (sort_desc t_timestamp rows3)
      in collect (task_of_row loads) rows4)"







text \<open>
  The Python value of an optional dictionary argument, for comparing what was passed with
  what comes back: \<open>None\<close> is \<open>JNull\<close>.
\<close>

definition metadata_value :: "(string \<times> json) list option \<Rightarrow> json" where
  "metadata_value metadata = (case metadata of None \<Rightarrow> JNull | Some d \<Rightarrow> JDict d)"

subsection \<open>Example data\<close>

text \<open>
  A store with one consultation and two tasks, and the two values of \<open>json.dumps\<close> and
  \<open>json.loads\<close> that the examples need.
\<close>

definition example_dumps :: "json \<Rightarrow> string" where
  "example_dumps j = (if j = JDict [] then ''{}'' else [CHR ''{'', CHR 0x22, CHR ''n'', CHR 0x22, CHR '':'', CHR '' '', CHR ''1'', CHR ''}''])"

definition example_loads :: "string \<Rightarrow> json option" where
  "example_loads s = (if s = ''{}'' then Some (JDict []) else if s = [CHR ''{'', CHR 0x22, CHR ''n'', CHR 0x22, CHR '':'', CHR '' '', CHR ''1'', CHR ''}''] then Some (JDict [(''n'', JNum 1)]) else None)"

definition example_store :: store where
  "example_store =
     \<lparr> consultations =
         [\<lparr> c_id = 1, c_agent_name = ''DataEngineer'', c_query = ''How to optimize dbt models?'',
            c_response = ''Use incremental models'', c_importance = ''high'',
            c_metadata = Some ''{}'', c_timestamp = ''2025-11-23T11:00:00'' \<rparr>],
       tasks =
         [\<lparr> t_id = 1, t_agent_name = ''BackendExpert'', t_task_type = ''audit'',
            t_description = ''Audit the cache layer'', t_result = Some ''Optimization: add an index'',
            t_status = ''completed'', t_metadata = Some ''{}'',
            t_timestamp = ''2025-11-23T10:00:00'' \<rparr>,
          \<lparr> t_id = 2, t_agent_name = ''DevOpsSRE'', t_task_type = ''general'',
            t_description = ''Optimize the deploy pipeline'', t_result = Some [],
            t_status = ''pending'', t_metadata = Some ''{}'',
            t_timestamp = ''2025-11-23T12:00:00'' \<rparr>],
       seq_consultations = 1, seq_tasks = 2 \<rparr>"


section \<open>Python dictionaries\<close>



section \<open>Router (\<open>jarvis_router.py\<close>)\<close>

datatype agent_class = DataEngineerAgent | BackendExpertAgent | DevOpsSREAgent | AIEngineerAgent

text \<open>
  An agent object: \<open>a_ident\<close> is the identity of the Python object (two references are
  the same object iff they carry the same identity), \<open>a_name\<close> the name passed to the
  constructor, \<open>a_running\<close> the flag that \<open>start()\<close> sets.
\<close>

record agent =
  a_ident :: nat
  a_class :: agent_class
  a_name :: string
  a_running :: bool









section \<open>Reasoning core: working memory (\<open>core/brain.py\<close>)\<close>
















section \<open>Results about the code reviewer\<close>

lemma review_checks_bounds: "40 \<le> snd (review_checks code) \<and> snd (review_checks code) \<le> 70"
  by (simp add: review_checks_def check_length_def check_function_def check_comments_def
      check_imports_def)

text \<open>
  C9.  For every code string the heuristic review returns a score between 40 and 70: the
  four deductions take at most 30 from the base 70.  Hence the floor at zero never changes
  the score, and the \<open>approved\<close> flag, computed from the un-floored score, is the test
  \<open>score \<ge> 60\<close> on the returned score.
\<close>

theorem review_code_score_range:
  "40 \<le> score (review_code code) \<and> score (review_code code) \<le> 70
   \<and> score (review_code code) = snd (review_checks code)
   \<and> approved (review_code code) = (score (review_code code) \<ge> 60)"
proof -
  have b: "40 \<le> snd (review_checks code)" "snd (review_checks code) \<le> 70"
    using review_checks_bounds [of code] by simp_all
  have s: "score (review_code code) = snd (review_checks code)"
    using b by (simp add: review_code_def Let_def)
  have a: "approved (review_code code) = (snd (review_checks code) \<ge> 60)"
    by (simp add: review_code_def Let_def)
  show ?thesis using b s a by simp
qed

theorem review_code_score_range_witness:
  "score (review_code ''pass'') = 40 \<and> \<not> approved (review_code ''pass'')
   \<and> score (review_code ''import os # util def f(): return os.getcwd()'') = 70
   \<and> approved (review_code ''import os # util def f(): return os.getcwd()'')"
proof -
  have c: "snd (review_checks ''pass'') = 40"
    by code_simp
  have d: "snd (review_checks ''import os # util def f(): return os.getcwd()'') = 70"
    by code_simp
  show ?thesis
    using review_code_score_range [of "''pass''"]
      review_code_score_range [of "''import os # util def f(): return os.getcwd()''"] c d
    by simp
qed


section \<open>Results about the battery manager\<close>

text \<open>
  C4.  The profile is a function of the reading alone: plugged in, or without a battery,
  it is \<open>PERFORMANCE\<close> whatever the percentage; otherwise above 80 gives
  \<open>PERFORMANCE\<close>, above 40 up to 80 \<open>BALANCED\<close>, above 20 up to 40 \<open>ECO\<close>, and 20 or
  less \<open>CRITICAL\<close>.  \<open>get_performance_profile\<close> applies this rule to the status built
  from the sensor reading.
\<close>

theorem performance_profile_rule:
  "(plugged st \<or> \<not> present st \<longrightarrow> profile_of_status st = PERFORMANCE)
   \<and> (\<not> plugged st \<and> present st \<longrightarrow>
        (percent st > 80 \<longrightarrow> profile_of_status st = PERFORMANCE)
      \<and> (40 < percent st \<and> percent st \<le> 80 \<longrightarrow> profile_of_status st = BALANCED)
      \<and> (20 < percent st \<and> percent st \<le> 40 \<longrightarrow> profile_of_status st = ECO)
      \<and> (percent st \<le> 20 \<longrightarrow> profile_of_status st = CRITICAL))
   \<and> get_performance_profile None = PERFORMANCE
   \<and> get_performance_profile (Some b) =
        profile_of_status \<lparr> present = True, percent = sb_percent b,
          plugged = sb_power_plugged b,
          time_left = (if sb_secsleft b \<noteq> POWER_TIME_UNLIMITED then Some (sb_secsleft b) else None) \<rparr>"
  by (simp add: profile_of_status_def get_performance_profile_def get_battery_status_def Let_def)

theorem performance_profile_rule_witness:
  "profile_of_status \<lparr> present = True, percent = 81, plugged = False, time_left = None \<rparr> = PERFORMANCE
   \<and> profile_of_status \<lparr> present = True, percent = 80, plugged = False, time_left = None \<rparr> = BALANCED
   \<and> profile_of_status \<lparr> present = True, percent = 40, plugged = False, time_left = None \<rparr> = ECO
   \<and> profile_of_status \<lparr> present = True, percent = 20, plugged = False, time_left = None \<rparr> = CRITICAL
   \<and> profile_of_status \<lparr> present = True, percent = 0, plugged = False, time_left = None \<rparr> = CRITICAL
   \<and> profile_of_status \<lparr> present = True, percent = 5, plugged = True, time_left = None \<rparr> = PERFORMANCE
   \<and> profile_of_status \<lparr> present = False, percent = 5, plugged = False, time_left = None \<rparr> = PERFORMANCE"
  using performance_profile_rule [of "\<lparr> present = True, percent = 81, plugged = False, time_left = None \<rparr>"]
    performance_profile_rule [of "\<lparr> present = True, percent = 80, plugged = False, time_left = None \<rparr>"]
    performance_profile_rule [of "\<lparr> present = True, percent = 40, plugged = False, time_left = None \<rparr>"]
    performance_profile_rule [of "\<lparr> present = True, percent = 20, plugged = False, time_left = None \<rparr>"]
    performance_profile_rule [of "\<lparr> present = True, percent = 0, plugged = False, time_left = None \<rparr>"]
    performance_profile_rule [of "\<lparr> present = True, percent = 5, plugged = True, time_left = None \<rparr>"]
    performance_profile_rule [of "\<lparr> present = False, percent = 5, plugged = False, time_left = None \<rparr>"]
  by simp

lemma check_and_adapt_throttled:
  "total_seconds (now - last_check bm) < real_of_int (check_interval bm) \<Longrightarrow>
   check_and_adapt bm now r1 r2 = (False, bm)"
  by (simp add: check_and_adapt_def)

lemma check_and_adapt_same:
  "\<not> total_seconds (now - last_check bm) < real_of_int (check_interval bm) \<Longrightarrow>
   get_performance_profile r1 = current_profile bm \<Longrightarrow>
   check_and_adapt bm now r1 r2 = (False, bm \<lparr> last_check := now \<rparr>)"
  by (simp add: check_and_adapt_def Let_def)

lemma check_and_adapt_last_check:
  "\<not> total_seconds (now - last_check bm) < real_of_int (check_interval bm) \<Longrightarrow>
   last_check (snd (check_and_adapt bm now r1 r2)) = now"
  by (simp add: check_and_adapt_def Let_def)

lemma check_and_adapt_interval:
  "check_interval (snd (check_and_adapt bm now r1 r2)) = check_interval bm"
  by (simp add: check_and_adapt_def Let_def)

text \<open>
  C5 (amended).  Two calls less than 60 seconds apart report a change at most once; when
  the first of them was not throttled, the second returns false and changes nothing,
  whatever the sensor reads.  A throttled call returns false and leaves the manager as it
  was.  A call that is not throttled and recomputes the current profile returns false and
  leaves profile and history alone, but it does advance \<open>last_check\<close> to the time of the
  call.
\<close>

theorem check_and_adapt_throttle:
  assumes c1: "check_and_adapt bm now1 a1 b1 = (changed1, bm1)"
    and c2: "check_and_adapt bm1 now2 a2 b2 = (changed2, bm2)"
    and iv: "check_interval bm = 60"
    and w: "total_seconds (now2 - now1) < 60"
  shows "\<not> (changed1 \<and> changed2)
    \<and> (\<not> total_seconds (now1 - last_check bm) < 60 \<longrightarrow> \<not> changed2 \<and> bm2 = bm1)
    \<and> (\<not> total_seconds (now1 - last_check bm) < 60
         \<and> get_performance_profile a1 = current_profile bm \<longrightarrow>
           \<not> changed1 \<and> bm1 = bm \<lparr> last_check := now1 \<rparr>)
    \<and> (total_seconds (now1 - last_check bm) < 60 \<longrightarrow> \<not> changed1 \<and> bm1 = bm)"
proof -
  have iv1: "check_interval bm1 = 60"
    using check_and_adapt_interval [of bm now1 a1 b1] c1 iv by simp
  have A: "\<not> changed2 \<and> bm2 = bm1" if nt: "\<not> total_seconds (now1 - last_check bm) < 60"
  proof -
    have "last_check bm1 = now1"
      using check_and_adapt_last_check [of now1 bm a1 b1] nt iv c1 by simp
    then have "total_seconds (now2 - last_check bm1) < real_of_int (check_interval bm1)"
      using w iv1 by simp
    then show ?thesis using check_and_adapt_throttled [of now2 bm1 a2 b2] c2 by simp
  qed
  have B: "\<not> changed1 \<and> bm1 = bm" if t: "total_seconds (now1 - last_check bm) < 60"
    using check_and_adapt_throttled [of now1 bm a1 b1] t iv c1 by simp
  have C: "\<not> changed1 \<and> bm1 = bm \<lparr> last_check := now1 \<rparr>"
    if "\<not> total_seconds (now1 - last_check bm) < 60" "get_performance_profile a1 = current_profile bm"
    using check_and_adapt_same [of now1 bm a1 b1] that iv c1 by simp
  show ?thesis using A B C by blast
qed

theorem check_and_adapt_throttle_witness:
  "check_and_adapt (init_battery_manager 0) 60000000
      (Some \<lparr> sb_percent = 50, sb_secsleft = - 1, sb_power_plugged = False \<rparr>)
      (Some \<lparr> sb_percent = 50, sb_secsleft = - 1, sb_power_plugged = False \<rparr>)
    = (True, \<lparr> current_profile = BALANCED, last_check = 60000000, check_interval = 60,
         battery_history = [\<lparr> he_timestamp = 60000000, he_level = 50, he_profile = BALANCED,
                               he_plugged = False \<rparr>] \<rparr>)
   \<and> get_performance_profile (Some \<lparr> sb_percent = 10, sb_secsleft = - 1, sb_power_plugged = False \<rparr>)
       = CRITICAL
   \<and> check_and_adapt \<lparr> current_profile = BALANCED, last_check = 60000000, check_interval = 60,
         battery_history = [\<lparr> he_timestamp = 60000000, he_level = 50, he_profile = BALANCED,
                               he_plugged = False \<rparr>] \<rparr> 90000000
      (Some \<lparr> sb_percent = 10, sb_secsleft = - 1, sb_power_plugged = False \<rparr>)
      (Some \<lparr> sb_percent = 10, sb_secsleft = - 1, sb_power_plugged = False \<rparr>)
    = (False, \<lparr> current_profile = BALANCED, last_check = 60000000, check_interval = 60,
         battery_history = [\<lparr> he_timestamp = 60000000, he_level = 50, he_profile = BALANCED,
                               he_plugged = False \<rparr>] \<rparr>)"
proof -
  let ?r50 = "Some \<lparr> sb_percent = 50, sb_secsleft = - 1, sb_power_plugged = False \<rparr>"
  let ?r10 = "Some \<lparr> sb_percent = 10, sb_secsleft = - 1, sb_power_plugged = False \<rparr>"
  let ?bm1 = "\<lparr> current_profile = BALANCED, last_check = 60000000, check_interval = 60,
         battery_history = [\<lparr> he_timestamp = 60000000, he_level = 50, he_profile = BALANCED,
                               he_plugged = False \<rparr>] \<rparr>"
  have c1: "check_and_adapt (init_battery_manager 0) 60000000 ?r50 ?r50 = (True, ?bm1)"
    by (simp add: check_and_adapt_def init_battery_manager_def total_seconds_def Let_def
        get_performance_profile_def get_battery_status_def profile_of_status_def)
  obtain ch2 bm2 where c2: "check_and_adapt ?bm1 90000000 ?r10 ?r10 = (ch2, bm2)"
    by (cases "check_and_adapt ?bm1 90000000 ?r10 ?r10") blast
  have iv: "check_interval (init_battery_manager 0) = 60"
    by (simp add: init_battery_manager_def)
  have w: "total_seconds (90000000 - 60000000) < 60"
    by (simp add: total_seconds_def)
  have nt: "\<not> total_seconds (60000000 - last_check (init_battery_manager 0)) < 60"
    by (simp add: total_seconds_def init_battery_manager_def)
  have "\<not> ch2 \<and> bm2 = ?bm1"
    using check_and_adapt_throttle [OF c1 c2 iv w] nt by blast
  moreover have "get_performance_profile ?r10 = CRITICAL"
    by (simp add: get_performance_profile_def get_battery_status_def profile_of_status_def)
  ultimately show ?thesis using c1 c2 by simp
qed

text \<open>
  C5 as stated fails: a call that is not throttled and finds the profile unchanged returns
  false but has updated \<open>last_check\<close>, so the manager is not what it was.
\<close>

theorem check_and_adapt_side_effect_counterexample:
  "get_performance_profile None = current_profile (init_battery_manager 0)
   \<and> check_and_adapt (init_battery_manager 0) 60000000 None None
       = (False, (init_battery_manager 0) \<lparr> last_check := 60000000 \<rparr>)
   \<and> snd (check_and_adapt (init_battery_manager 0) 60000000 None None) \<noteq> init_battery_manager 0"
  by (simp add: check_and_adapt_def init_battery_manager_def total_seconds_def Let_def
        get_performance_profile_def get_battery_status_def profile_of_status_def)

lemma check_and_adapt_history:
  "battery_history (snd (check_and_adapt bm now r1 r2)) =
     (if fst (check_and_adapt bm now r1 r2)
      then (let h = battery_history bm @
                  [\<lparr> he_timestamp = now, he_level = percent (get_battery_status r2),
                     he_profile = get_performance_profile r1,
                     he_plugged = plugged (get_battery_status r2) \<rparr>]
            in drop (length h - 100) h)
      else battery_history bm)"
  by (simp add: check_and_adapt_def Let_def py_slice_from_def)

lemma check_and_adapt_history_bound:
  "length (battery_history bm) \<le> 100 \<Longrightarrow>
   length (battery_history (snd (check_and_adapt bm now r1 r2))) \<le> 100"
  by (auto simp add: check_and_adapt_history Let_def)

lemma run_checks_history_bound:
  "length (battery_history bm) \<le> 100 \<Longrightarrow>
   length (battery_history (run_checks bm calls)) \<le> 100"
proof (induction calls arbitrary: bm)
  case Nil
  then show ?case by simp
next
  case (Cons c calls)
  obtain now r1 r2 where c: "c = (now, r1, r2)" by (cases c) auto
  show ?case
    using Cons.IH [OF check_and_adapt_history_bound [OF Cons.prems, of now r1 r2]] c by simp
qed

text \<open>
  C7.  After any sequence of calls from a fresh manager the history holds at most 100
  entries; each call keeps the bound; a call that reports a change appends its entry and
  keeps the last 100, so with 100 entries before, the oldest one is dropped; a call that
  reports no change leaves the history as it was.
\<close>

theorem battery_history_bounded:
  "length (battery_history (run_checks (init_battery_manager t0) calls)) \<le> 100
   \<and> (length (battery_history bm) \<le> 100 \<longrightarrow>
        length (battery_history (snd (check_and_adapt bm now r1 r2))) \<le> 100)
   \<and> (fst (check_and_adapt bm now r1 r2) \<longrightarrow>
        battery_history (snd (check_and_adapt bm now r1 r2)) =
          (let h = battery_history bm @
                  [\<lparr> he_timestamp = now, he_level = percent (get_battery_status r2),
                     he_profile = get_performance_profile r1,
                     he_plugged = plugged (get_battery_status r2) \<rparr>]
           in drop (length h - 100) h))
   \<and> (fst (check_and_adapt bm now r1 r2) \<and> length (battery_history bm) = 100 \<longrightarrow>
        battery_history (snd (check_and_adapt bm now r1 r2)) =
          tl (battery_history bm) @
            [\<lparr> he_timestamp = now, he_level = percent (get_battery_status r2),
               he_profile = get_performance_profile r1,
               he_plugged = plugged (get_battery_status r2) \<rparr>])
   \<and> (\<not> fst (check_and_adapt bm now r1 r2) \<longrightarrow>
        battery_history (snd (check_and_adapt bm now r1 r2)) = battery_history bm)"
proof -
  have "length (battery_history (init_battery_manager t0)) \<le> 100"
    by (simp add: init_battery_manager_def)
  then have A: "length (battery_history (run_checks (init_battery_manager t0) calls)) \<le> 100"
    by (rule run_checks_history_bound)
  have D: "drop (Suc 0) (xs @ [e]) = tl xs @ [e]" if "length xs = 100" for xs :: "history_entry list" and e
    using that by (cases xs) simp_all
  show ?thesis
    using A check_and_adapt_history_bound [of bm now r1 r2]
    by (auto simp add: check_and_adapt_history [of bm now r1 r2] Let_def D drop_Suc)
qed

theorem battery_history_bounded_witness:
  "fst (check_and_adapt \<lparr> current_profile = PERFORMANCE, last_check = 0, check_interval = 60,
          battery_history = replicate 100 \<lparr> he_timestamp = 0, he_level = 90, he_profile = PERFORMANCE,
                               he_plugged = False \<rparr> \<rparr> 60000000
          (Some \<lparr> sb_percent = 10, sb_secsleft = - 1, sb_power_plugged = False \<rparr>)
          (Some \<lparr> sb_percent = 9, sb_secsleft = - 1, sb_power_plugged = False \<rparr>))
   \<and> battery_history (snd (check_and_adapt \<lparr> current_profile = PERFORMANCE, last_check = 0, check_interval = 60,
          battery_history = replicate 100 \<lparr> he_timestamp = 0, he_level = 90, he_profile = PERFORMANCE,
                               he_plugged = False \<rparr> \<rparr> 60000000
          (Some \<lparr> sb_percent = 10, sb_secsleft = - 1, sb_power_plugged = False \<rparr>)
          (Some \<lparr> sb_percent = 9, sb_secsleft = - 1, sb_power_plugged = False \<rparr>)))
     = replicate 99 \<lparr> he_timestamp = 0, he_level = 90, he_profile = PERFORMANCE, he_plugged = False \<rparr>
         @ [\<lparr> he_timestamp = 60000000, he_level = 9, he_profile = CRITICAL, he_plugged = False \<rparr>]
   \<and> length (battery_history (snd (check_and_adapt \<lparr> current_profile = PERFORMANCE, last_check = 0, check_interval = 60,
          battery_history = replicate 100 \<lparr> he_timestamp = 0, he_level = 90, he_profile = PERFORMANCE,
                               he_plugged = False \<rparr> \<rparr> 60000000
          (Some \<lparr> sb_percent = 10, sb_secsleft = - 1, sb_power_plugged = False \<rparr>)
          (Some \<lparr> sb_percent = 9, sb_secsleft = - 1, sb_power_plugged = False \<rparr>)))) \<le> 100"
proof -
  let ?e0 = "\<lparr> he_timestamp = 0, he_level = 90, he_profile = PERFORMANCE, he_plugged = False \<rparr>"
  let ?bm = "\<lparr> current_profile = PERFORMANCE, last_check = 0, check_interval = 60,
          battery_history = replicate 100 ?e0 \<rparr>"
  let ?r1 = "Some \<lparr> sb_percent = 10, sb_secsleft = - 1, sb_power_plugged = False \<rparr>"
  let ?r2 = "Some \<lparr> sb_percent = 9, sb_secsleft = - 1, sb_power_plugged = False \<rparr>"
  have f: "fst (check_and_adapt ?bm 60000000 ?r1 ?r2)"
    by (simp add: check_and_adapt_def total_seconds_def Let_def
        get_performance_profile_def get_battery_status_def profile_of_status_def)
  have l: "length (battery_history ?bm) = 100" by simp
  have p: "get_performance_profile ?r1 = CRITICAL"
    by (simp add: get_performance_profile_def get_battery_status_def profile_of_status_def)
  have s: "get_battery_status ?r2 = \<lparr> present = True, percent = 9, plugged = False, time_left = Some (- 1) \<rparr>"
    by (simp add: get_battery_status_def POWER_TIME_UNLIMITED_def)
  have t: "tl (replicate 100 ?e0) = replicate 99 ?e0" by simp
  show ?thesis
    using battery_history_bounded [of 0 "[]" ?bm 60000000 ?r1 ?r2] f l p s t by simp
qed


section \<open>Results about the complexity score\<close>

lemma str_in_iff_sublist: "str_in sub s \<longleftrightarrow> sublist sub s"
  by (induction s) (auto simp: sublist_Cons_right)

lemma count_present:
  "distinct xs \<Longrightarrow> sum_list (map (\<lambda>kw. 1) (filter P xs)) = int (card {x \<in> set xs. P x})"
proof -
  assume d: "distinct xs"
  have "sum_list (map (\<lambda>kw. 1::int) (filter P xs)) = int (length (filter P xs))"
    by (induction xs) simp_all
  moreover have "card (set (filter P xs)) = length (filter P xs)"
    by (rule distinct_card) (simp add: d)
  moreover have "set (filter P xs) = {x \<in> set xs. P x}" by simp
  ultimately show ?thesis by simp
qed

lemma distinct_complex_kw: "distinct complex_kw"
  by (simp add: complex_kw_def)

lemma score_seven:
  "v = max 0 (min 10 (5 + (if l1 then 1 else 0) + (if l2 then 1 else 0) + min 3 (int c)
                        - (if b then 2 else 0))) \<Longrightarrow>
   v = 7 \<Longrightarrow> \<not> l1 \<Longrightarrow> \<not> l2 \<Longrightarrow> \<not> b \<Longrightarrow> c = 2"
  by (simp split: if_splits add: min_def max_def)

lemma score_steps:
  "max 0 (min 10
     ((if E then (if L2 then (if L1 then 5 + 1 else 5) + 1 else (if L1 then 5 + 1 else 5)) + min C 3 - 2
       else (if L2 then (if L1 then 5 + 1 else 5) + 1 else (if L1 then 5 + 1 else 5)) + min C 3)))
   = max 0 (min 10 (5 + (if L1 then 1 else 0) + (if L2 then 1 else 0) + min 3 C
                     - (if E then 2 else 0)))" for C :: int
  by (simp add: min.commute)

text \<open>
  C2 (amended).  The score is 5, plus 1 for a prompt longer than 200 characters and 1 more
  beyond 500, plus the number of keywords of
  \<open>{pourquoi, why, comment, how, analyse, architecture, implement, explain}\<close> that occur
  in the lower-cased prompt, capped at 3, minus 2 if one of
  \<open>{bonjour, hello, what is, qui est}\<close> occurs in it, clamped to 0..10.  The keyword is
  spelled \<open>analyse\<close> in the source.
\<close>

theorem evaluate_complexity_formula:
  "evaluate_complexity prompt =
     max 0 (min 10
       (5 + (if length prompt > 200 then 1 else 0) + (if length prompt > 500 then 1 else 0)
          + min 3 (int (card {kw \<in> {''pourquoi'', ''why'', ''comment'', ''how'', ''analyse'',
                                   ''architecture'', ''implement'', ''explain''}.
                              sublist kw (lower prompt)}))
          - (if \<exists>kw \<in> {''bonjour'', ''hello'', ''what is'', ''qui est''}. sublist kw (lower prompt)
             then 2 else 0)))"
proof -
  have s: "set complex_kw = {''pourquoi'', ''why'', ''comment'', ''how'', ''analyse'',
                                   ''architecture'', ''implement'', ''explain''}"
    unfolding complex_kw_def by (simp only: list.set)
  have c: "sum_list (map (\<lambda>kw. 1) (filter (\<lambda>kw. str_in kw (lower prompt)) complex_kw))
      = int (card {kw \<in> {''pourquoi'', ''why'', ''comment'', ''how'', ''analyse'',
                                   ''architecture'', ''implement'', ''explain''}.
                    sublist kw (lower prompt)})"
    using count_present [OF distinct_complex_kw, of "\<lambda>kw. str_in kw (lower prompt)"]
    by (simp only: s str_in_iff_sublist)
  have e: "list_ex (\<lambda>kw. str_in kw (lower prompt)) simple_kw
      \<longleftrightarrow> (\<exists>kw \<in> {''bonjour'', ''hello'', ''what is'', ''qui est''}. sublist kw (lower prompt))"
    unfolding simple_kw_def list_ex_iff str_in_iff_sublist by (simp only: list.set)
  show ?thesis
    unfolding evaluate_complexity_def Let_def c e by (rule score_steps)
qed

theorem evaluate_complexity_formula_witness:
  "evaluate_complexity ''How to Analyse this?'' = 7
   \<and> \<not> (\<exists>kw \<in> {''bonjour'', ''hello'', ''what is'', ''qui est''}.
          sublist kw (lower ''How to Analyse this?''))
   \<and> card {kw \<in> {''pourquoi'', ''why'', ''comment'', ''how'', ''analyse'',
                                   ''architecture'', ''implement'', ''explain''}.
            sublist kw (lower ''How to Analyse this?'')} = 2"
proof -
  have e: "evaluate_complexity ''How to Analyse this?'' = 7"
    by code_simp
  have n: "\<not> (\<exists>kw \<in> {''bonjour'', ''hello'', ''what is'', ''qui est''}.
          sublist kw (lower ''How to Analyse this?''))"
    by code_simp
  have l1: "\<not> length ''How to Analyse this?'' > 200" by simp
  have l2: "\<not> length ''How to Analyse this?'' > 500" by simp
  note k = score_seven [OF evaluate_complexity_formula [of "''How to Analyse this?''"] e l1 l2 n]
  from e n k show ?thesis by blast
qed

text \<open>
  C2 as stated fails on the prompt \<open>analyze\<close>: the source does not count that spelling,
  so the score is 5 where the stated keyword set gives 6.
\<close>

theorem evaluate_complexity_analyze_counterexample:
  "evaluate_complexity ''analyze'' \<noteq> spec_complexity ''analyze''"
proof -
  have "evaluate_complexity ''analyze'' = 5" by code_simp
  moreover have "spec_complexity ''analyze'' = 6" by code_simp
  ultimately show ?thesis by simp
qed


section \<open>Results about the persistent store\<close>

lemma set_insert_desc: "set (insert_desc k x xs) = insert x (set xs)"
  by (induction xs) auto

lemma length_insert_desc: "length (insert_desc k x xs) = Suc (length xs)"
  by (induction xs) auto



lemma set_sort_desc: "set (sort_desc k xs) = set xs"
  by (induction xs) (simp_all add: sort_desc_def set_insert_desc)

lemma length_sort_desc: "length (sort_desc k xs) = length xs"
  by (induction xs) (simp_all add: sort_desc_def length_insert_desc)





lemma hd_sort_desc_snoc:
  "\<forall>y \<in> set xs. k y < k x \<Longrightarrow> sort_desc k (xs @ [x]) = x # sort_desc k xs"
proof (induction xs)
  case Nil
  then show ?case by (simp add: sort_desc_def)
next
  case (Cons y ys)
  then have ih: "sort_desc k (ys @ [x]) = x # sort_desc k ys" by simp
  have "k y < k x" using Cons.prems by simp
  then have "\<not> k x \<le> k y" by simp
  then show ?case using ih by (simp add: sort_desc_def)
qed





lemma collect_ok:
  "\<forall>r \<in> set rs. \<exists>d. f r = Inr d \<Longrightarrow> \<exists>ds. collect f rs = Inr ds"
proof (induction rs)
  case Nil
  then show ?case by simp
next
  case (Cons r rs)
  then obtain d ds where "f r = Inr d" "collect f rs = Inr ds" by auto
  then show ?case by simp
qed

lemma collect_map:
  "\<forall>r \<in> set rs. \<exists>d. f r = Inr d \<and> p d = h r \<Longrightarrow>
   \<exists>ds. collect f rs = Inr ds \<and> map p ds = map h rs"
proof (induction rs)
  case Nil
  then show ?case by simp
next
  case (Cons r rs)
  then obtain d ds where "f r = Inr d" "p d = h r" "collect f rs = Inr ds" "map p ds = map h rs"
    by auto
  then show ?case by simp
qed

lemma consultation_of_row_ok:
  "\<exists>j. decode_metadata loads (c_metadata r) = Inr j \<Longrightarrow> \<exists>d. consultation_of_row loads r = Inr d"
  by (auto simp: consultation_of_row_def)

lemma consultation_of_row_agent:
  "\<exists>j. decode_metadata loads (c_metadata r) = Inr j \<Longrightarrow>
   \<exists>d. consultation_of_row loads r = Inr d \<and> cd_agent d = c_agent_name r"
  by (auto simp: consultation_of_row_def)

lemma task_of_row_agent:
  "\<exists>j. decode_metadata loads (t_metadata r) = Inr j \<Longrightarrow>
   \<exists>d. task_of_row loads r = Inr d \<and> td_agent d = t_agent_name r"
  by (auto simp: task_of_row_def)

lemma sql_limit_all: "length xs \<le> nat n \<Longrightarrow> sql_limit n xs = xs"
  by (simp add: sql_limit_def)

text \<open>
  C8.  The empty string as \<open>agent_name\<close> is falsy, so the agent condition is skipped as
  it is for \<open>None\<close>: \<open>recall_consultations\<close> and \<open>recall_tasks\<close> return what they
  return without an agent filter, namely the rows that pass the other conditions, latest
  first, cut at the limit.  So, when all rows fit the limit, the records returned are those
  of every agent in the table.
\<close>

theorem recall_empty_agent_name:
  "recall_consultations loads db (Some '''') limit cutoff
     = recall_consultations loads db None limit cutoff
   \<and> recall_tasks loads db (Some '''') task_type limit cutoff
     = recall_tasks loads db None task_type limit cutoff
   \<and> recall_consultations loads db (Some '''') limit cutoff
     = collect (consultation_of_row loads)
         (sql_limit limit (sort_desc c_timestamp
            (case cutoff of None \<Rightarrow> consultations db
             | Some c \<Rightarrow> filter (\<lambda>r. c < c_timestamp r) (consultations db))))
   \<and> recall_tasks loads db (Some '''') task_type limit cutoff
     = collect (task_of_row loads)
         (sql_limit limit (sort_desc t_timestamp
            (case cutoff of
               None \<Rightarrow> (if truthy task_type
                         then filter (\<lambda>r. Some (t_task_type r) = task_type) (tasks db)
                         else tasks db)
             | Some c \<Rightarrow> filter (\<lambda>r. c < t_timestamp r)
                          (if truthy task_type
                           then filter (\<lambda>r. Some (t_task_type r) = task_type) (tasks db)
                           else tasks db))))
   \<and> ((\<forall>r \<in> set (consultations db). \<exists>j. decode_metadata loads (c_metadata r) = Inr j)
        \<and> length (consultations db) \<le> nat limit \<longrightarrow>
        (\<exists>ds. recall_consultations loads db (Some '''') limit None = Inr ds
           \<and> map cd_agent ds = map c_agent_name (sort_desc c_timestamp (consultations db))))
   \<and> ((\<forall>r \<in> set (tasks db). \<exists>j. decode_metadata loads (t_metadata r) = Inr j)
        \<and> length (tasks db) \<le> nat limit \<longrightarrow>
        (\<exists>ds. recall_tasks loads db (Some '''') None limit None = Inr ds
           \<and> map td_agent ds = map t_agent_name (sort_desc t_timestamp (tasks db))))"
proof -
  have A: "recall_consultations loads db (Some '''') limit cutoff
     = recall_consultations loads db None limit cutoff"
    by (simp add: recall_consultations_def truthy_def)
  have B: "recall_tasks loads db (Some '''') task_type limit cutoff
     = recall_tasks loads db None task_type limit cutoff"
    by (simp add: recall_tasks_def truthy_def)
  have C: "recall_consultations loads db (Some '''') limit cutoff
     = collect (consultation_of_row loads)
         (sql_limit limit (sort_desc c_timestamp
            (case cutoff of None \<Rightarrow> consultations db
             | Some c \<Rightarrow> filter (\<lambda>r. c < c_timestamp r) (consultations db))))"
    by (simp add: recall_consultations_def truthy_def Let_def)
  have D: "recall_tasks loads db (Some '''') task_type limit cutoff
     = collect (task_of_row loads)
         (sql_limit limit (sort_desc t_timestamp
            (case cutoff of
               None \<Rightarrow> (if truthy task_type
                         then filter (\<lambda>r. Some (t_task_type r) = task_type) (tasks db)
                         else tasks db)
             | Some c \<Rightarrow> filter (\<lambda>r. c < t_timestamp r)
                          (if truthy task_type
                           then filter (\<lambda>r. Some (t_task_type r) = task_type) (tasks db)
                           else tasks db))))"
    by (simp add: recall_tasks_def Let_def) (simp add: truthy_def)
  have E: "\<exists>ds. recall_consultations loads db (Some '''') limit None = Inr ds
           \<and> map cd_agent ds = map c_agent_name (sort_desc c_timestamp (consultations db))"
    if dec: "\<forall>r \<in> set (consultations db). \<exists>j. decode_metadata loads (c_metadata r) = Inr j"
      and len: "length (consultations db) \<le> nat limit"
  proof -
    have l: "sql_limit limit (sort_desc c_timestamp (consultations db))
        = sort_desc c_timestamp (consultations db)"
      using len by (simp add: sql_limit_all length_sort_desc)
    have "\<forall>r \<in> set (sort_desc c_timestamp (consultations db)).
            \<exists>d. consultation_of_row loads r = Inr d \<and> cd_agent d = c_agent_name r"
      using dec by (simp add: set_sort_desc consultation_of_row_agent)
    moreover have "recall_consultations loads db (Some []) limit None
        = collect (consultation_of_row loads) (sort_desc c_timestamp (consultations db))"
      by (simp add: recall_consultations_def truthy_def l)
    ultimately show ?thesis
      using collect_map [of _ "consultation_of_row loads" cd_agent c_agent_name] by simp
  qed
  have F: "\<exists>ds. recall_tasks loads db (Some '''') None limit None = Inr ds
           \<and> map td_agent ds = map t_agent_name (sort_desc t_timestamp (tasks db))"
    if dec: "\<forall>r \<in> set (tasks db). \<exists>j. decode_metadata loads (t_metadata r) = Inr j"
      and len: "length (tasks db) \<le> nat limit"
  proof -
    have l: "sql_limit limit (sort_desc t_timestamp (tasks db)) = sort_desc t_timestamp (tasks db)"
      using len by (simp add: sql_limit_all length_sort_desc)
    have r: "recall_tasks loads db (Some '''') None limit None
        = collect (task_of_row loads) (sort_desc t_timestamp (tasks db))"
      by (simp add: recall_tasks_def truthy_def l)
    have "\<forall>r \<in> set (sort_desc t_timestamp (tasks db)).
            \<exists>d. task_of_row loads r = Inr d \<and> td_agent d = t_agent_name r"
      using dec by (simp add: set_sort_desc task_of_row_agent)
    then show ?thesis
      unfolding r using collect_map [of _ "task_of_row loads" td_agent t_agent_name] by simp
  qed
  from A B C D E F show ?thesis by blast
qed

theorem recall_empty_agent_name_witness:
  "recall_consultations example_loads
       (snd (remember_consultation example_dumps example_store ''BackendExpert'' ''q'' ''r'' ''normal''
               None ''2025-11-23T12:00:00''))
       (Some []) 10 None =
     Inr [\<lparr> cd_id = 2, cd_agent = ''BackendExpert'', cd_query = ''q'', cd_response = ''r'',
             cd_importance = ''normal'', cd_metadata = JDict [],
             cd_timestamp = ''2025-11-23T12:00:00'' \<rparr>,
          \<lparr> cd_id = 1, cd_agent = ''DataEngineer'', cd_query = ''How to optimize dbt models?'',
            cd_response = ''Use incremental models'', cd_importance = ''high'',
            cd_metadata = JDict [], cd_timestamp = ''2025-11-23T11:00:00'' \<rparr>]
   \<and> recall_tasks example_loads example_store (Some []) None 10 None =
     Inr [\<lparr> td_id = 2, td_agent = ''DevOpsSRE'', td_task_type = ''general'',
            td_description = ''Optimize the deploy pipeline'', td_result = Some [],
            td_status = ''pending'', td_metadata = JDict [],
            td_timestamp = ''2025-11-23T12:00:00'' \<rparr>,
          \<lparr> td_id = 1, td_agent = ''BackendExpert'', td_task_type = ''audit'',
            td_description = ''Audit the cache layer'',
            td_result = Some ''Optimization: add an index'', td_status = ''completed'',
            td_metadata = JDict [], td_timestamp = ''2025-11-23T10:00:00'' \<rparr>]
   \<and> (\<exists>ds. recall_tasks example_loads example_store (Some []) None 10 None = Inr ds
          \<and> map td_agent ds = [''DevOpsSRE'', ''BackendExpert''])"
proof -
  let ?db = "snd (remember_consultation example_dumps example_store ''BackendExpert'' ''q'' ''r''
                    ''normal'' None ''2025-11-23T12:00:00'')"
  note C = recall_empty_agent_name [where loads = example_loads and db = ?db and limit = 10
      and cutoff = None and task_type = None]
  note T = recall_empty_agent_name [where loads = example_loads and db = example_store
      and limit = 10 and cutoff = None and task_type = None]
  have c: "recall_consultations example_loads ?db None 10 None =
     Inr [\<lparr> cd_id = 2, cd_agent = ''BackendExpert'', cd_query = ''q'', cd_response = ''r'',
             cd_importance = ''normal'', cd_metadata = JDict [],
             cd_timestamp = ''2025-11-23T12:00:00'' \<rparr>,
          \<lparr> cd_id = 1, cd_agent = ''DataEngineer'', cd_query = ''How to optimize dbt models?'',
            cd_response = ''Use incremental models'', cd_importance = ''high'',
            cd_metadata = JDict [], cd_timestamp = ''2025-11-23T11:00:00'' \<rparr>]"
    by code_simp
  have t: "recall_tasks example_loads example_store None None 10 None =
     Inr [\<lparr> td_id = 2, td_agent = ''DevOpsSRE'', td_task_type = ''general'',
            td_description = ''Optimize the deploy pipeline'', td_result = Some [],
            td_status = ''pending'', td_metadata = JDict [],
            td_timestamp = ''2025-11-23T12:00:00'' \<rparr>,
          \<lparr> td_id = 1, td_agent = ''BackendExpert'', td_task_type = ''audit'',
            td_description = ''Audit the cache layer'',
            td_result = Some ''Optimization: add an index'', td_status = ''completed'',
            td_metadata = JDict [], td_timestamp = ''2025-11-23T10:00:00'' \<rparr>]"
    by code_simp
  have dec: "\<forall>r \<in> set (tasks example_store).
               \<exists>j. decode_metadata example_loads (t_metadata r) = Inr j"
    by (simp add: example_store_def decode_metadata_def example_loads_def)
  have len: "length (tasks example_store) \<le> nat 10" by (simp add: example_store_def)
  have srt: "map t_agent_name (sort_desc t_timestamp (tasks example_store))
      = [''DevOpsSRE'', ''BackendExpert'']"
    by code_simp
  from C c have A: "recall_consultations example_loads ?db (Some []) 10 None =
     Inr [\<lparr> cd_id = 2, cd_agent = ''BackendExpert'', cd_query = ''q'', cd_response = ''r'',
             cd_importance = ''normal'', cd_metadata = JDict [],
             cd_timestamp = ''2025-11-23T12:00:00'' \<rparr>,
          \<lparr> cd_id = 1, cd_agent = ''DataEngineer'', cd_query = ''How to optimize dbt models?'',
            cd_response = ''Use incremental models'', cd_importance = ''high'',
            cd_metadata = JDict [], cd_timestamp = ''2025-11-23T11:00:00'' \<rparr>]"
    by simp
  from T t have B: "recall_tasks example_loads example_store (Some []) None 10 None =
     Inr [\<lparr> td_id = 2, td_agent = ''DevOpsSRE'', td_task_type = ''general'',
            td_description = ''Optimize the deploy pipeline'', td_result = Some [],
            td_status = ''pending'', td_metadata = JDict [],
            td_timestamp = ''2025-11-23T12:00:00'' \<rparr>,
          \<lparr> td_id = 1, td_agent = ''BackendExpert'', td_task_type = ''audit'',
            td_description = ''Audit the cache layer'',
            td_result = Some ''Optimization: add an index'', td_status = ''completed'',
            td_metadata = JDict [], td_timestamp = ''2025-11-23T10:00:00'' \<rparr>]"
    by simp
  from T dec len have "\<exists>ds. recall_tasks example_loads example_store (Some []) None 10 None = Inr ds
          \<and> map td_agent ds = map t_agent_name (sort_desc t_timestamp (tasks example_store))"
    by blast
  then have D: "\<exists>ds. recall_tasks example_loads example_store (Some []) None 10 None = Inr ds
          \<and> map td_agent ds = [''DevOpsSRE'', ''BackendExpert'']"
    by (simp only: srt)
  from A B D show ?thesis by blast
qed

text \<open>
  C6 (amended).  Write a consultation whose timestamp is later than that of every stored
  consultation, with metadata that \<open>json\<close> round-trips, into a store whose metadata
  all decodes.  Then \<open>recall_consultations\<close> for that agent, with a limit of at least 1
  (and a cutoff, if any, before the write), returns a list whose first record has the id
  returned by the write and the written agent, query, response, importance and timestamp;
  its metadata is the dictionary passed, and the empty dictionary when none was passed.
\<close>

theorem remember_recall_roundtrip:
  assumes rt: "loads (dumps (or_empty metadata)) = Some (or_empty metadata)"
    and ne: "dumps (or_empty metadata) \<noteq> []"
    and later: "\<forall>r \<in> set (consultations db). c_timestamp r < now_iso"
    and dec: "\<forall>r \<in> set (consultations db). \<exists>j. decode_metadata loads (c_metadata r) = Inr j"
    and lim: "1 \<le> limit"
    and cut: "case cutoff of None \<Rightarrow> True | Some c \<Rightarrow> c < now_iso"
    and rem: "remember_consultation dumps db agent query response importance metadata now_iso
                = (rid, db')"
  shows "(\<exists>rest. recall_consultations loads db' (Some agent) limit cutoff =
           Inr (\<lparr> cd_id = rid, cd_agent = agent, cd_query = query, cd_response = response,
                   cd_importance = importance, cd_metadata = or_empty metadata,
                   cd_timestamp = now_iso \<rparr> # rest))
         \<and> (metadata \<noteq> None \<longrightarrow> or_empty metadata = metadata_value metadata)"
proof -
  define row where "row = \<lparr> c_id = rid, c_agent_name = agent, c_query = query,
                  c_response = response, c_importance = importance,
                  c_metadata = Some (dumps (or_empty metadata)), c_timestamp = now_iso \<rparr>"
  have db': "consultations db' = consultations db @ [row]"
    using rem by (auto simp: remember_consultation_def Let_def row_def)
  define P1 where "P1 = (\<lambda>r::consultation_row. truthy (Some agent) \<longrightarrow> Some (c_agent_name r) = Some agent)"
  define P2 where "P2 = (\<lambda>r::consultation_row. case cutoff of None \<Rightarrow> True | Some c \<Rightarrow> c_timestamp r > c)"
  define xs where "xs = filter P2 (filter P1 (consultations db))"
  have rows: "(let rows0 = consultations db';
          rows1 = (if truthy (Some agent)
                   then filter (\<lambda>r. Some (c_agent_name r) = Some agent) rows0 else rows0)
      in (case cutoff of None \<Rightarrow> rows1
                   | Some c \<Rightarrow> filter (\<lambda>r. c_timestamp r > c) rows1)) = xs @ [row]"
    using cut by (auto simp: db' xs_def P1_def P2_def row_def Let_def split: option.splits)
  have sub: "set xs \<subseteq> set (consultations db)" by (auto simp: xs_def)
  have "\<forall>y \<in> set xs. c_timestamp y < c_timestamp row"
    using later sub by (auto simp: row_def)
  then have srt: "sort_desc c_timestamp (xs @ [row]) = row # sort_desc c_timestamp xs"
    by (rule hd_sort_desc_snoc)
  have lim': "sql_limit limit (row # sort_desc c_timestamp xs)
      = row # take (nat limit - 1) (sort_desc c_timestamp xs)"
    using lim by (cases "nat limit") (auto simp: sql_limit_def)
  have "\<forall>r \<in> set (take (nat limit - 1) (sort_desc c_timestamp xs)).
          \<exists>d. consultation_of_row loads r = Inr d"
  proof
    fix r assume "r \<in> set (take (nat limit - 1) (sort_desc c_timestamp xs))"
    then have "r \<in> set (sort_desc c_timestamp xs)" by (rule in_set_takeD)
    then have "r \<in> set (consultations db)" using sub by (auto simp: set_sort_desc)
    then show "\<exists>d. consultation_of_row loads r = Inr d"
      using dec by (auto intro: consultation_of_row_ok)
  qed
  then obtain rest where rest:
    "collect (consultation_of_row loads) (take (nat limit - 1) (sort_desc c_timestamp xs)) = Inr rest"
    using collect_ok by blast
  have dm: "decode_metadata loads (c_metadata row) = Inr (or_empty metadata)"
    using rt ne by (simp add: decode_metadata_def row_def)
  have one: "consultation_of_row loads row =
      Inr \<lparr> cd_id = rid, cd_agent = agent, cd_query = query, cd_response = response,
                   cd_importance = importance, cd_metadata = or_empty metadata,
                   cd_timestamp = now_iso \<rparr>"
    by (simp add: consultation_of_row_def dm) (simp add: row_def)
  have "recall_consultations loads db' (Some agent) limit cutoff
      = collect (consultation_of_row loads) (sql_limit limit (sort_desc c_timestamp (xs @ [row])))"
    using rows by (simp add: recall_consultations_def Let_def)
  also have "\<dots> = Inr (\<lparr> cd_id = rid, cd_agent = agent, cd_query = query, cd_response = response,
                   cd_importance = importance, cd_metadata = or_empty metadata,
                   cd_timestamp = now_iso \<rparr> # rest)"
    using rest by (simp add: srt lim' one)
  finally have A: "recall_consultations loads db' (Some agent) limit cutoff =
           Inr (\<lparr> cd_id = rid, cd_agent = agent, cd_query = query, cd_response = response,
                   cd_importance = importance, cd_metadata = or_empty metadata,
                   cd_timestamp = now_iso \<rparr> # rest)" .
  have B: "metadata \<noteq> None \<longrightarrow> or_empty metadata = metadata_value metadata"
    by (auto simp: or_empty_def metadata_value_def)
  from A B show ?thesis by blast
qed

theorem remember_recall_roundtrip_witness:
  "(\<exists>rest. recall_consultations example_loads
       (snd (remember_consultation example_dumps example_store ''BackendExpert''
               ''FastAPI performance?'' ''Use async endpoints'' ''normal''
               (Some [(''n'', JNum 1)]) ''2025-11-23T12:30:00.000250''))
       (Some ''BackendExpert'') 1 None =
     Inr (\<lparr> cd_id = 2, cd_agent = ''BackendExpert'', cd_query = ''FastAPI performance?'',
             cd_response = ''Use async endpoints'', cd_importance = ''normal'',
             cd_metadata = JDict [(''n'', JNum 1)],
             cd_timestamp = ''2025-11-23T12:30:00.000250'' \<rparr> # rest))
   \<and> or_empty (Some [(''n'', JNum 1)]) = metadata_value (Some [(''n'', JNum 1)])"
proof -
  let ?m = "Some [(''n'', JNum 1)]"
  let ?now = "''2025-11-23T12:30:00.000250''"
  let ?r = "remember_consultation example_dumps example_store ''BackendExpert''
               ''FastAPI performance?'' ''Use async endpoints'' ''normal'' ?m ?now"
  have oe: "or_empty ?m = JDict [(''n'', JNum 1)]" by (simp add: or_empty_def)
  have rt: "example_loads (example_dumps (or_empty ?m)) = Some (or_empty ?m)"
    by (simp add: oe example_loads_def example_dumps_def)
  have ne: "example_dumps (or_empty ?m) \<noteq> []"
    by (simp add: oe example_dumps_def)
  have later: "\<forall>r \<in> set (consultations example_store). c_timestamp r < ?now"
    by (simp add: example_store_def)
  have dec: "\<forall>r \<in> set (consultations example_store).
               \<exists>j. decode_metadata example_loads (c_metadata r) = Inr j"
    by (simp add: example_store_def decode_metadata_def example_loads_def)
  have lim: "(1::int) \<le> 1" by simp
  have cut: "case None :: string option of None \<Rightarrow> True | Some c \<Rightarrow> c < ?now" by simp
  have rem: "?r = (2, snd ?r)"
    by (simp add: remember_consultation_def example_store_def)
  note T = remember_recall_roundtrip [OF rt ne later dec lim cut rem]
  from T have "\<exists>rest. recall_consultations example_loads (snd ?r) (Some ''BackendExpert'') 1 None =
     Inr (\<lparr> cd_id = 2, cd_agent = ''BackendExpert'', cd_query = ''FastAPI performance?'',
             cd_response = ''Use async endpoints'', cd_importance = ''normal'',
             cd_metadata = or_empty ?m,
             cd_timestamp = ?now \<rparr> # rest)"
    by (rule conjunct1)
  then have A: "\<exists>rest. recall_consultations example_loads (snd ?r) (Some ''BackendExpert'') 1 None =
     Inr (\<lparr> cd_id = 2, cd_agent = ''BackendExpert'', cd_query = ''FastAPI performance?'',
             cd_response = ''Use async endpoints'', cd_importance = ''normal'',
             cd_metadata = JDict [(''n'', JNum 1)],
             cd_timestamp = ?now \<rparr> # rest)"
    by (simp only: oe)
  have B: "or_empty ?m = metadata_value ?m"
    by (simp add: or_empty_def metadata_value_def)
  from A B show ?thesis by (rule conjI)
qed

text \<open>
  C6 as stated fails twice.  Written without metadata (\<open>None\<close>), a consultation is
  recalled with metadata \<open>{}\<close>, which is not what was passed.  And written with a
  timestamp earlier than that of a stored consultation of the same agent (the wall clock
  was set back), it is not among the records recalled with limit 1.
\<close>

theorem remember_recall_roundtrip_counterexample:
  "recall_consultations example_loads
       (snd (remember_consultation example_dumps empty_store ''DataEngineer'' ''q'' ''r'' ''normal''
               None ''2025-11-23T10:00:00''))
       (Some ''DataEngineer'') 10 None =
     Inr [\<lparr> cd_id = 1, cd_agent = ''DataEngineer'', cd_query = ''q'', cd_response = ''r'',
             cd_importance = ''normal'', cd_metadata = JDict [],
             cd_timestamp = ''2025-11-23T10:00:00'' \<rparr>]
   \<and> JDict [] \<noteq> metadata_value None
   \<and> recall_consultations example_loads
       (snd (remember_consultation example_dumps example_store ''DataEngineer'' ''q'' ''r'' ''normal''
               (Some [(''n'', JNum 1)]) ''2025-11-23T10:00:00''))
       (Some ''DataEngineer'') 1 None =
     Inr [\<lparr> cd_id = 1, cd_agent = ''DataEngineer'', cd_query = ''How to optimize dbt models?'',
            cd_response = ''Use incremental models'', cd_importance = ''high'',
            cd_metadata = JDict [], cd_timestamp = ''2025-11-23T11:00:00'' \<rparr>]"
proof -
  have a: "recall_consultations example_loads
       (snd (remember_consultation example_dumps empty_store ''DataEngineer'' ''q'' ''r'' ''normal''
               None ''2025-11-23T10:00:00''))
       (Some ''DataEngineer'') 10 None =
     Inr [\<lparr> cd_id = 1, cd_agent = ''DataEngineer'', cd_query = ''q'', cd_response = ''r'',
             cd_importance = ''normal'', cd_metadata = JDict [],
             cd_timestamp = ''2025-11-23T10:00:00'' \<rparr>]"
    by code_simp
  have b: "JDict [] \<noteq> metadata_value None" by (simp add: metadata_value_def)
  have c: "recall_consultations example_loads
       (snd (remember_consultation example_dumps example_store ''DataEngineer'' ''q'' ''r'' ''normal''
               (Some [(''n'', JNum 1)]) ''2025-11-23T10:00:00''))
       (Some ''DataEngineer'') 1 None =
     Inr [\<lparr> cd_id = 1, cd_agent = ''DataEngineer'', cd_query = ''How to optimize dbt models?'',
            cd_response = ''Use incremental models'', cd_importance = ''high'',
            cd_metadata = JDict [], cd_timestamp = ''2025-11-23T11:00:00'' \<rparr>]"
    by code_simp
  from a b c show ?thesis by blast
qed








section \<open>Results about the working memory\<close>









section \<open>Results about the router\<close>




























end
